theory Spec2Isabelle
  imports Main "HOL-Library.Word"
begin

unbundle bit_operations_syntax

section \<open>Stack creation for ARM threads: \<open>arch/arm/src/common/up_createstack.c\<close>\<close>

text \<open>
  The file defines two functions, \<open>up_create_stack\<close> and \<open>up_stack_color\<close>. Both work on
  32-bit quantities (\<open>size_t\<close>, \<open>uintptr_t\<close>, \<open>uint32_t\<close> on ARM), which are modelled as
  \<open>32 word\<close>: addition and subtraction wrap around as unsigned C arithmetic does. The null
  pointer is the word 0.
\<close>

subsection \<open>Build configuration\<close>

text \<open>
  The code is specialised by the preprocessor. Each switch the file tests is a field of the
  configuration. Constants that the file uses but that are defined in headers outside this
  file (\<open>sizeof(struct tls_info_s)\<close> and the offset of its member \<open>tl_tcb\<close>,
  \<open>TLS_MAXSTACK\<close>, \<open>TLS_STACK_ALIGN\<close>, \<open>STACK_COLOR\<close>) are fields as well, so that every
  result holds for whatever value the headers give them.
\<close>

record config =
  CONFIG_TLS :: bool
  CONFIG_BUILD_PROTECTED :: bool
  CONFIG_BUILD_KERNEL :: bool
  CONFIG_MM_KERNEL_HEAP :: bool
  CONFIG_STACK_COLORATION :: bool
  CONFIG_DEBUG :: bool
  CONFIG_STACK_ALIGNMENT :: "32 word option"
  ARM_EABI :: bool
  sizeof_tls_info_s :: "32 word"
  offsetof_tl_tcb :: "32 word"
  TLS_MAXSTACK :: "32 word"
  TLS_STACK_ALIGN :: "32 word"
  STACK_COLOR :: "32 word"

text \<open>Lines 63-67: the kernel heap exists in a protected or kernel build that enables it.\<close>

definition HAVE_KERNEL_HEAP :: "config \<Rightarrow> bool" where
  "HAVE_KERNEL_HEAP cfg =
     ((CONFIG_BUILD_PROTECTED cfg \<or> CONFIG_BUILD_KERNEL cfg) \<and> CONFIG_MM_KERNEL_HEAP cfg)"

text \<open>
  Lines 73-84: \<open>CONFIG_STACK_ALIGNMENT\<close> is taken from the configuration when it is set
  there; otherwise it is 8 under EABI and 4 without.
\<close>

definition STACK_ALIGNMENT :: "config \<Rightarrow> 32 word" where
  "STACK_ALIGNMENT cfg =
     (case CONFIG_STACK_ALIGNMENT cfg of
        Some a \<Rightarrow> a
      | None \<Rightarrow> (if ARM_EABI cfg then 8 else 4))"

text \<open>Lines 88-89.\<close>

definition STACK_ALIGN_MASK :: "config \<Rightarrow> 32 word" where
  "STACK_ALIGN_MASK cfg = STACK_ALIGNMENT cfg - 1"

definition STACK_ALIGN_DOWN :: "config \<Rightarrow> 32 word \<Rightarrow> 32 word" where
  "STACK_ALIGN_DOWN cfg a = a AND NOT (STACK_ALIGN_MASK cfg)"

subsection \<open>Data\<close>

text \<open>The three fields of \<open>struct tcb_s\<close> that the file reads and writes.\<close>

record tcb_s =
  stack_alloc_ptr :: "32 word"
  adj_stack_size :: "32 word"
  adj_stack_ptr :: "32 word"

text \<open>
  The thread type. The file only compares it with \<open>TCB_FLAG_TTYPE_KERNEL\<close> and hands it on
  to \<open>up_release_stack\<close>; the three values are the ones its header comment lists.
\<close>

datatype ttype = TCB_FLAG_TTYPE_TASK | TCB_FLAG_TTYPE_PTHREAD | TCB_FLAG_TTYPE_KERNEL

text \<open>
  The four allocator entry points, with their arguments: alignment and size for the
  aligned ones, size for the others.
\<close>

datatype alloc_call =
    Kmm_memalign "32 word" "32 word"
  | Kumm_memalign "32 word" "32 word"
  | Kmm_malloc "32 word"
  | Kumm_malloc "32 word"

text \<open>
  Calls that leave the file are recorded in order: the release of the old stack, the
  allocation (with the pointer it returned), the debug message and the LED event.
\<close>

datatype event =
    Release ttype
  | Alloc alloc_call "32 word"
  | Sdbg "32 word"
  | Board_autoled_on

text \<open>
  Memory is a map from byte addresses to bytes. The TCB is kept apart from it, as a record
  together with its own address \<open>tcb_ptr\<close>: the model takes the TCB to lie outside the memory
  that the routine writes (the stack block).
\<close>

type_synonym memory = "32 word \<Rightarrow> 8 word"

record sys =
  tcb :: tcb_s
  tcb_ptr :: "32 word"
  mem :: memory
  calls :: "event list"

datatype status = OK | ERROR

datatype panic = AssertionFailed

subsection \<open>Memory primitives\<close>

text \<open>
  The C library's \<open>memset\<close>: \<open>memset p c n\<close> sets the \<open>n\<close> bytes from \<open>p\<close>. The test
  \<open>a - p < n\<close> is unsigned, so it holds exactly for \<open>a = p, p + 1, ..., p + n - 1\<close>
  (modulo \<open>2^32\<close>).
\<close>

definition memset :: "memory \<Rightarrow> 32 word \<Rightarrow> 8 word \<Rightarrow> 32 word \<Rightarrow> memory" where
  "memset m p c n = (\<lambda>a. if a - p < n then c else m a)"

text \<open>A 32-bit store, least significant byte first (the little-endian ARM default).\<close>

definition store32 :: "memory \<Rightarrow> 32 word \<Rightarrow> 32 word \<Rightarrow> memory" where
  "store32 m p v = (\<lambda>a. if a - p < 4 then ucast (drop_bit (8 * unat (a - p)) v) else m a)"


subsection \<open>\<open>up_stack_color\<close> (lines 305-319)\<close>

text \<open>The loop \<open>while (nwords-- > 0) *stkptr++ = STACK_COLOR\<close>.\<close>

fun color_loop :: "32 word \<Rightarrow> nat \<Rightarrow> 32 word \<Rightarrow> memory \<Rightarrow> memory" where
  "color_loop color 0 stkptr m = m"
| "color_loop color (Suc nwords) stkptr m =
     color_loop color nwords (stkptr + 4) (store32 m stkptr color)"

definition up_stack_color :: "32 word \<Rightarrow> 32 word \<Rightarrow> 32 word \<Rightarrow> memory \<Rightarrow> memory" where
  "up_stack_color color stackbase nbytes m =
     (let stkptr = (stackbase + 3) AND NOT 3;
          stkend = (stackbase + nbytes) AND NOT 3;
          nwords = drop_bit 2 (stkend - stackbase)
      in color_loop color (unat nwords) stkptr m)"

subsection \<open>\<open>up_create_stack\<close> (lines 134-294)\<close>

text \<open>
  Modelled from the spec: the macro \<open>DEBUGASSERT\<close> comes from a header outside the file.
  The spec says of the size check that it is asserted in debug builds and that in release
  builds the size is silently clamped. So the assertion is checked when \<open>CONFIG_DEBUG\<close> is
  set, a failed assertion stops the call (the \<open>Inl\<close> result), and otherwise nothing
  happens.
\<close>

definition DEBUGASSERT :: "config \<Rightarrow> bool \<Rightarrow> panic + unit" where
  "DEBUGASSERT cfg f = (if CONFIG_DEBUG cfg \<and> \<not> f then Inl AssertionFailed else Inr ())"

text \<open>
  Lines 136-150. With TLS the size grows by the TLS header, is asserted not to exceed
  \<open>TLS_MAXSTACK\<close>, and is cut at \<open>TLS_MAXSTACK\<close>.
\<close>

definition tls_stack_size :: "config \<Rightarrow> 32 word \<Rightarrow> panic + 32 word" where
  "tls_stack_size cfg stack_size =
     (if CONFIG_TLS cfg then
        (let stack_size = stack_size + sizeof_tls_info_s cfg in
         case DEBUGASSERT cfg (stack_size \<le> TLS_MAXSTACK cfg) of
           Inl e \<Rightarrow> Inl e
         | Inr u \<Rightarrow>
             Inr (if stack_size \<ge> TLS_MAXSTACK cfg then TLS_MAXSTACK cfg else stack_size))
      else Inr stack_size)"

text \<open>
  Modelled from the spec: \<open>up_release_stack\<close> is defined in another file of the repository.
  The spec gives its contract: it releases a previously attached stack, and
  \<open>stack_alloc_ptr\<close> is null exactly when no stack is attached. So the model detaches the
  block and records the call.
\<close>

definition up_release_stack :: "sys \<Rightarrow> ttype \<Rightarrow> sys" where
  "up_release_stack s ttype =
     s\<lparr>tcb := (tcb s)\<lparr>stack_alloc_ptr := 0\<rparr>, calls := calls s @ [Release ttype]\<rparr>"

text \<open>Lines 157-162.\<close>

definition release_old :: "sys \<Rightarrow> 32 word \<Rightarrow> ttype \<Rightarrow> sys" where
  "release_old s stack_size ttype =
     (if stack_alloc_ptr (tcb s) \<noteq> 0 \<and> adj_stack_size (tcb s) \<noteq> stack_size
      then up_release_stack s ttype else s)"

text \<open>Lines 173-206: which allocator is called, by configuration and thread type.\<close>

definition alloc_request :: "config \<Rightarrow> 32 word \<Rightarrow> ttype \<Rightarrow> alloc_call" where
  "alloc_request cfg stack_size ttype =
     (if CONFIG_TLS cfg then
        (if HAVE_KERNEL_HEAP cfg \<and> ttype = TCB_FLAG_TTYPE_KERNEL
         then Kmm_memalign (TLS_STACK_ALIGN cfg) stack_size
         else Kumm_memalign (TLS_STACK_ALIGN cfg) stack_size)
      else
        (if HAVE_KERNEL_HEAP cfg \<and> ttype = TCB_FLAG_TTYPE_KERNEL
         then Kmm_malloc stack_size
         else Kumm_malloc stack_size))"

text \<open>
  Lines 166-216. The allocators are outside the file: \<open>mm\<close> gives the pointer that the
  allocator returns for a call, null on exhaustion.
\<close>

definition allocate ::
  "config \<Rightarrow> (alloc_call \<Rightarrow> 32 word) \<Rightarrow> sys \<Rightarrow> 32 word \<Rightarrow> ttype \<Rightarrow> sys" where
  "allocate cfg mm s stack_size ttype =
     (if stack_alloc_ptr (tcb s) = 0 then
        (let req = alloc_request cfg stack_size ttype;
             p = mm req;
             s1 = s\<lparr>tcb := (tcb s)\<lparr>stack_alloc_ptr := p\<rparr>, calls := calls s @ [Alloc req p]\<rparr>
         in if CONFIG_DEBUG cfg \<and> p = 0
            then s1\<lparr>calls := calls s1 @ [Sdbg stack_size]\<rparr>
            else s1)
      else s)"

text \<open>
  Lines 259-287. With TLS the header at the base of the block is cleared and its \<open>tl_tcb\<close>
  member set to the TCB's address. With coloration the stack is filled with \<open>STACK_COLOR\<close>:
  above the TLS header when there is one, from the base of the block otherwise. (In the
  branch for TLS with coloration the source declares \<open>stack_base\<close> and assigns
  \<open>stackbase\<close>; the model reads both as the one variable that is meant.)
\<close>

definition instrument :: "config \<Rightarrow> sys \<Rightarrow> memory" where
  "instrument cfg s =
     (if CONFIG_TLS cfg then
        (let info = stack_alloc_ptr (tcb s);
             m1 = memset (mem s) info 0 (sizeof_tls_info_s cfg);
             m2 = store32 m1 (info + offsetof_tl_tcb cfg) (tcb_ptr s)
         in if CONFIG_STACK_COLORATION cfg then
              (let stack_base = info + sizeof_tls_info_s cfg;
                   stack_size = adj_stack_size (tcb s) - sizeof_tls_info_s cfg
               in up_stack_color (STACK_COLOR cfg) stack_base stack_size m2)
            else m2)
      else if CONFIG_STACK_COLORATION cfg then
        up_stack_color (STACK_COLOR cfg) (stack_alloc_ptr (tcb s)) (adj_stack_size (tcb s)) (mem s)
      else mem s)"

text \<open>Lines 220-293.\<close>

definition setup_stack :: "config \<Rightarrow> sys \<Rightarrow> 32 word \<Rightarrow> sys \<times> status" where
  "setup_stack cfg s stack_size =
     (if stack_alloc_ptr (tcb s) \<noteq> 0 then
        (let top_of_stack = stack_alloc_ptr (tcb s) + stack_size - 4;
             top_of_stack = STACK_ALIGN_DOWN cfg top_of_stack;
             size_of_stack = top_of_stack - stack_alloc_ptr (tcb s) + 4;
             s1 = s\<lparr>tcb := (tcb s)\<lparr>adj_stack_ptr := top_of_stack,
                                   adj_stack_size := size_of_stack\<rparr>\<rparr>;
             s2 = s1\<lparr>mem := instrument cfg s1\<rparr>
         in (s2\<lparr>calls := calls s2 @ [Board_autoled_on]\<rparr>, OK))
      else (s, ERROR))"

text \<open>The body of the function after the size adjustment, and the function itself.\<close>

definition create_with_size ::
  "config \<Rightarrow> (alloc_call \<Rightarrow> 32 word) \<Rightarrow> sys \<Rightarrow> 32 word \<Rightarrow> ttype \<Rightarrow> sys \<times> status" where
  "create_with_size cfg mm s stack_size ttype =
     setup_stack cfg (allocate cfg mm (release_old s stack_size ttype) stack_size ttype)
       stack_size"

definition up_create_stack ::
  "config \<Rightarrow> (alloc_call \<Rightarrow> 32 word) \<Rightarrow> sys \<Rightarrow> 32 word \<Rightarrow> ttype \<Rightarrow> panic + sys \<times> status" where
  "up_create_stack cfg mm s stack_size ttype =
     (case tls_stack_size cfg stack_size of
        Inl e \<Rightarrow> Inl e
      | Inr stack_size \<Rightarrow> Inr (create_with_size cfg mm s stack_size ttype))"

subsection \<open>Observations on a call\<close>

text \<open>Which heap an allocator call takes the block from, its alignment and its size.\<close>

datatype heap = Kernel_heap | User_heap

fun heap_of :: "alloc_call \<Rightarrow> heap" where
  "heap_of (Kmm_memalign a n) = Kernel_heap"
| "heap_of (Kumm_memalign a n) = User_heap"
| "heap_of (Kmm_malloc n) = Kernel_heap"
| "heap_of (Kumm_malloc n) = User_heap"

fun alignment_of :: "alloc_call \<Rightarrow> 32 word option" where
  "alignment_of (Kmm_memalign a n) = Some a"
| "alignment_of (Kumm_memalign a n) = Some a"
| "alignment_of (Kmm_malloc n) = None"
| "alignment_of (Kumm_malloc n) = None"

fun size_of :: "alloc_call \<Rightarrow> 32 word" where
  "size_of (Kmm_memalign a n) = n"
| "size_of (Kumm_memalign a n) = n"
| "size_of (Kmm_malloc n) = n"
| "size_of (Kumm_malloc n) = n"

text \<open>
  What a caller sees of a call that returned: the TCB, the calls made so far and the
  status. A call stopped by an assertion gives \<open>None\<close>.
\<close>

definition outcome :: "panic + sys \<times> status \<Rightarrow> (tcb_s \<times> event list \<times> status) option" where
  "outcome r = (case r of Inl e \<Rightarrow> None | Inr (s, st) \<Rightarrow> Some (tcb s, calls s, st))"


text \<open>
  The calls that one call of \<open>up_create_stack\<close> adds to the record, and the kinds of call
  that the properties below ask about.
\<close>

definition new_calls :: "sys \<Rightarrow> sys \<Rightarrow> event list" where
  "new_calls s s' = drop (length (calls s)) (calls s')"

fun is_release :: "event \<Rightarrow> bool" where
  "is_release (Release k) = True"
| "is_release e = False"

fun is_alloc :: "event \<Rightarrow> bool" where
  "is_alloc (Alloc c p) = True"
| "is_alloc e = False"

text \<open>The release and the allocation that a call makes, by the state it starts from.\<close>

definition release_calls :: "sys \<Rightarrow> 32 word \<Rightarrow> ttype \<Rightarrow> event list" where
  "release_calls s S ttype =
     (if stack_alloc_ptr (tcb s) \<noteq> 0 \<and> adj_stack_size (tcb s) \<noteq> S
      then [Release ttype] else [])"

definition alloc_calls ::
  "config \<Rightarrow> (alloc_call \<Rightarrow> 32 word) \<Rightarrow> sys \<Rightarrow> 32 word \<Rightarrow> ttype \<Rightarrow> event list" where
  "alloc_calls cfg mm s S ttype =
     (if stack_alloc_ptr (tcb s) = 0 \<or> adj_stack_size (tcb s) \<noteq> S then
        Alloc (alloc_request cfg S ttype) (mm (alloc_request cfg S ttype))
          # (if CONFIG_DEBUG cfg \<and> mm (alloc_request cfg S ttype) = 0 then [Sdbg S] else [])
      else [])"

text \<open>
  Two calls in a row on the same TCB with the same arguments; the allocator may answer
  differently the second time. The second call is made when the first returned \<open>OK\<close>.
\<close>

definition create_twice ::
  "config \<Rightarrow> (alloc_call \<Rightarrow> 32 word) \<Rightarrow> (alloc_call \<Rightarrow> 32 word) \<Rightarrow> sys \<Rightarrow> 32 word
     \<Rightarrow> ttype \<Rightarrow> panic + sys \<times> status" where
  "create_twice cfg mm1 mm2 s stack_size ttype =
     (case up_create_stack cfg mm1 s stack_size ttype of
        Inl e \<Rightarrow> Inl e
      | Inr (s1, st) \<Rightarrow>
          (if st = OK then up_create_stack cfg mm2 s1 stack_size ttype else Inr (s1, st)))"

subsection \<open>Example builds and states\<close>

text \<open>
  A flat EABI build without TLS, coloration or debugging; the values of the TLS constants
  only matter in the variants that switch TLS on.
\<close>

definition flat_eabi :: config where
  "flat_eabi =
     \<lparr>CONFIG_TLS = False, CONFIG_BUILD_PROTECTED = False, CONFIG_BUILD_KERNEL = False,
      CONFIG_MM_KERNEL_HEAP = False, CONFIG_STACK_COLORATION = False, CONFIG_DEBUG = False,
      CONFIG_STACK_ALIGNMENT = None, ARM_EABI = True, sizeof_tls_info_s = 16,
      offsetof_tl_tcb = 0, TLS_MAXSTACK = 2048, TLS_STACK_ALIGN = 2048,
      STACK_COLOR = 0xdeadbeef\<rparr>"

definition flat_oabi :: config where
  "flat_oabi = flat_eabi\<lparr>ARM_EABI := False\<rparr>"

definition tls_eabi :: config where
  "tls_eabi = flat_eabi\<lparr>CONFIG_TLS := True\<rparr>"

definition tls_color_eabi :: config where
  "tls_color_eabi = tls_eabi\<lparr>CONFIG_STACK_COLORATION := True\<rparr>"

definition protected_eabi :: config where
  "protected_eabi = flat_eabi\<lparr>CONFIG_BUILD_PROTECTED := True, CONFIG_MM_KERNEL_HEAP := True\<rparr>"

text \<open>A TCB without a stack, at address \<open>0x10000000\<close>, over zeroed memory.\<close>

definition fresh :: sys where
  "fresh =
     \<lparr>tcb = \<lparr>stack_alloc_ptr = 0, adj_stack_size = 0, adj_stack_ptr = 0\<rparr>,
      tcb_ptr = 0x10000000, mem = (\<lambda>a. 0), calls = []\<rparr>"

text \<open>A TCB that holds the stack of 1020 usable bytes at \<open>0x20001000\<close>.\<close>

definition attached :: sys where
  "attached =
     \<lparr>tcb = \<lparr>stack_alloc_ptr = 0x20001000, adj_stack_size = 1020,
             adj_stack_ptr = 0x200013F8\<rparr>,
      tcb_ptr = 0x10000000, mem = (\<lambda>a. 0), calls = []\<rparr>"

section \<open>Auxiliary facts\<close>

lemmas create_defs = up_create_stack_def tls_stack_size_def DEBUGASSERT_def
  create_with_size_def release_old_def
  up_release_stack_def allocate_def alloc_request_def setup_stack_def instrument_def
  STACK_ALIGN_DOWN_def STACK_ALIGN_MASK_def STACK_ALIGNMENT_def HAVE_KERNEL_HEAP_def Let_def

lemmas example_defs = flat_eabi_def flat_oabi_def tls_eabi_def tls_color_eabi_def
  protected_eabi_def fresh_def attached_def

subsection \<open>Rounding down to a power of two\<close>

lemma and_not_mask_word:
  fixes x :: "32 word"
  shows "x AND NOT (mask k) = push_bit k (drop_bit k x)"
  by (rule bit_word_eqI) (auto simp add: bit_simps)

lemma align_down_sub:
  fixes x :: "32 word"
  shows "x AND NOT (mask k) = x - take_bit k x"
  using bits_ident [of k x] by (simp add: and_not_mask_word algebra_simps)

lemma unat_take_bit32: "unat (take_bit k (x :: 32 word)) = unat x mod 2 ^ k"
  by (subst unsigned_take_bit_eq) (simp add: take_bit_eq_mod)

lemma align_down_unat:
  fixes x :: "32 word"
  shows "unat (x AND NOT (mask k)) = unat x - unat x mod 2 ^ k"
proof -
  have "take_bit k x \<le> x"
    by (simp only: word_le_nat_alt unat_take_bit32 mod_less_eq_dividend)
  then show ?thesis
    by (simp only: align_down_sub unat_sub unat_take_bit32)
qed

lemma unat_2p32: "k < 32 \<Longrightarrow> unat (2 ^ k :: 32 word) = 2 ^ k"
proof -
  assume k: "k < 32"
  have lt: "(2::nat) ^ k < 2 ^ 32"
    using k by (rule power_strict_increasing) simp
  have "(2 ^ k :: 32 word) = of_nat (2 ^ k)"
    by simp
  then have "unat (2 ^ k :: 32 word) = (2 ^ k) mod 2 ^ 32"
    by (simp only: unat_of_nat) simp
  then show ?thesis
    using lt by simp
qed

lemma STACK_ALIGN_DOWN_unat:
  assumes "STACK_ALIGNMENT cfg = 2 ^ k"
  shows "unat (STACK_ALIGN_DOWN cfg a) = unat a - unat a mod 2 ^ k"
  using assms
  by (simp add: STACK_ALIGN_DOWN_def STACK_ALIGN_MASK_def align_down_unat
      flip: mask_eq_decr_exp)

subsection \<open>The steps of \<open>up_create_stack\<close>\<close>

lemma setup_stack_alloc_ptr:
  "setup_stack cfg t S = (s', r) \<Longrightarrow> stack_alloc_ptr (tcb s') = stack_alloc_ptr (tcb t)"
  by (auto simp add: setup_stack_def Let_def split: if_splits)

lemma setup_stack_status:
  "setup_stack cfg t S = (s', r) \<Longrightarrow> (r = OK) = (stack_alloc_ptr (tcb t) \<noteq> 0)"
  by (auto simp add: setup_stack_def Let_def split: if_splits)

lemma setup_stack_geometry:
  assumes "setup_stack cfg t S = (s', OK)"
  shows "adj_stack_ptr (tcb s') = STACK_ALIGN_DOWN cfg (stack_alloc_ptr (tcb t) + S - 4)"
    and "adj_stack_size (tcb s') = adj_stack_ptr (tcb s') - stack_alloc_ptr (tcb t) + 4"
  using assms by (auto simp add: setup_stack_def Let_def split: if_splits)

lemma up_create_stack_eq:
  "tls_stack_size cfg stack_size = Inr S \<Longrightarrow>
   up_create_stack cfg mm s stack_size ttype = Inr (create_with_size cfg mm s S ttype)"
  by (simp add: up_create_stack_def)

lemma create_keep:
  assumes "stack_alloc_ptr (tcb s) \<noteq> 0" and "adj_stack_size (tcb s) = S"
  shows "create_with_size cfg mm s S ttype = setup_stack cfg s S"
  using assms by (simp add: create_with_size_def release_old_def allocate_def)

lemma create_fresh:
  assumes "stack_alloc_ptr (tcb s) = 0"
  shows "create_with_size cfg mm s S ttype = setup_stack cfg (allocate cfg mm s S ttype) S"
  using assms by (simp add: create_with_size_def release_old_def)

lemma create_resize:
  assumes "stack_alloc_ptr (tcb s) \<noteq> 0" and "adj_stack_size (tcb s) \<noteq> S"
  shows "create_with_size cfg mm s S ttype
     = setup_stack cfg (allocate cfg mm (up_release_stack s ttype) S ttype) S"
  using assms by (simp add: create_with_size_def release_old_def)

lemma create_calls:
  assumes "create_with_size cfg mm s S ttype = (s', r)"
  shows "calls s' = calls s @ release_calls s S ttype @ alloc_calls cfg mm s S ttype
           @ (if r = OK then [Board_autoled_on] else [])"
  using assms
  by (auto simp add: create_with_size_def release_old_def up_release_stack_def allocate_def
      setup_stack_def release_calls_def alloc_calls_def Let_def split: if_splits)

lemma create_alloc_ptr:
  assumes "create_with_size cfg mm s S ttype = (s', r)"
  shows "stack_alloc_ptr (tcb s') =
     (if stack_alloc_ptr (tcb s) = 0 \<or> adj_stack_size (tcb s) \<noteq> S
      then mm (alloc_request cfg S ttype) else stack_alloc_ptr (tcb s))"
  using assms
  by (auto simp add: create_with_size_def release_old_def up_release_stack_def allocate_def
      setup_stack_def Let_def split: if_splits)

lemma create_status:
  assumes "create_with_size cfg mm s S ttype = (s', r)"
  shows "(r = OK) = (stack_alloc_ptr (tcb s') \<noteq> 0)"
  using assms
  by (auto simp add: create_with_size_def release_old_def up_release_stack_def allocate_def
      setup_stack_def Let_def split: if_splits)

lemma create_new_calls:
  assumes "create_with_size cfg mm s S ttype = (s', r)"
  shows "new_calls s s' = release_calls s S ttype @ alloc_calls cfg mm s S ttype
           @ (if r = OK then [Board_autoled_on] else [])"
  using create_calls [OF assms] by (simp add: new_calls_def)

lemma create_mem_ERROR:
  assumes "create_with_size cfg mm s S ttype = (s', ERROR)"
  shows "mem s' = mem s" and "adj_stack_size (tcb s') = adj_stack_size (tcb s)"
    and "adj_stack_ptr (tcb s') = adj_stack_ptr (tcb s)"
  using assms
  by (auto simp add: create_with_size_def release_old_def up_release_stack_def allocate_def
      setup_stack_def Let_def split: if_splits)

lemma alloc_request_props:
  "heap_of (alloc_request cfg S ttype)
     = (if HAVE_KERNEL_HEAP cfg \<and> ttype = TCB_FLAG_TTYPE_KERNEL then Kernel_heap else User_heap)"
  "alignment_of (alloc_request cfg S ttype)
     = (if CONFIG_TLS cfg then Some (TLS_STACK_ALIGN cfg) else None)"
  "size_of (alloc_request cfg S ttype) = S"
  by (simp_all add: alloc_request_def)

lemma new_calls_Alloc:
  assumes "create_with_size cfg mm s S ttype = (s', r)"
    and "Alloc c p \<in> set (new_calls s s')"
  shows "c = alloc_request cfg S ttype" and "p = mm c"
  using assms(2) unfolding create_new_calls [OF assms(1)]
  by (auto simp add: release_calls_def alloc_calls_def split: if_splits)

lemma new_calls_is_alloc:
  assumes "create_with_size cfg mm s S ttype = (s', r)"
  shows "list_ex is_alloc (new_calls s s')
     = (stack_alloc_ptr (tcb s) = 0 \<or> adj_stack_size (tcb s) \<noteq> S)"
  unfolding create_new_calls [OF assms]
  by (auto simp add: release_calls_def alloc_calls_def split: if_splits)




subsection \<open>Words and numbers\<close>

lemma mask2: "(3 :: 32 word) = mask 2"
  by (simp add: mask_eq_exp_minus_1)

lemma unat_and3: "unat ((a :: 32 word) AND 3) = unat a mod 4"
  using unat_take_bit32 [of 2 a] by (simp add: take_bit_eq_mask mask2)

lemma aligned_iff: "((p :: 32 word) AND 3 = 0) = (4 dvd unat p)"
proof -
  have "(p AND 3 = 0) = (unat (p AND 3) = 0)"
    by (simp add: unat_eq_0)
  then show ?thesis
    by (simp add: unat_and3 dvd_eq_mod_eq_0)
qed

lemma mod4_mod32: "(x :: nat) mod 4294967296 mod 4 = x mod 4"
  by (rule mod_mod_cancel) simp

lemma aligned_add4:
  fixes p :: "32 word"
  assumes "p AND 3 = 0"
  shows "(p + 4) AND 3 = 0"
proof -
  have "unat (p + 4) mod 4 = (unat p + 4) mod 4"
    by (simp add: unat_word_ariths mod4_mod32)
  then show ?thesis
    using assms by (simp add: aligned_iff dvd_eq_mod_eq_0)
qed

lemma aligned_offset:
  fixes a p :: "32 word"
  assumes "p AND 3 = 0" and "a - p < 4"
  shows "a AND 3 = a - p"
proof -
  have d: "unat (a - p) < 4"
    using assms(2) by (simp add: word_less_nat_alt)
  have "unat a = (unat p + unat (a - p)) mod 4294967296"
    using unat_word_ariths(1) [of p "a - p"] by simp
  then have "unat a mod 4 = (unat p + unat (a - p)) mod 4"
    by (simp add: mod4_mod32)
  also have "\<dots> = unat (a - p)"
    using assms(1) d by (simp add: aligned_iff mod_add_left_eq dvd_eq_mod_eq_0 flip: mod_add_eq)
  finally have "unat (a AND 3) = unat (a - p)"
    by (simp add: unat_and3)
  then show ?thesis
    by (simp add: word_unat_eq_iff)
qed

subsection \<open>What \<open>up_stack_color\<close> writes\<close>

text \<open>
  An address that no word of the loop covers keeps its byte; an address that one of them
  covers holds the byte of the colour that its position in the word selects.
\<close>

lemma color_loop_frame:
  assumes "\<And>i. i < n \<Longrightarrow> \<not> a - (p + 4 * of_nat i) < 4"
  shows "color_loop c n p m a = m a"
  using assms
proof (induction n arbitrary: p m)
  case 0
  show ?case by simp
next
  case (Suc n)
  have first: "\<not> a - p < 4"
    using Suc.prems [of 0] by simp
  have rest: "\<not> a - (p + 4 + 4 * of_nat i) < 4" if "i < n" for i
    using Suc.prems [of "Suc i"] that by (simp add: algebra_simps)
  have "color_loop c n (p + 4) (store32 m p c) a = store32 m p c a"
    by (rule Suc.IH) (rule rest)
  then show ?case
    using first by (simp add: store32_def)
qed

lemma color_loop_colored:
  assumes "p AND 3 = 0" and "i < n" and "a - (p + 4 * of_nat i) < 4"
  shows "color_loop c n p m a = ucast (drop_bit (8 * unat (a AND 3)) c)"
  using assms
proof (induction n arbitrary: p m i)
  case 0
  then show ?case by simp
next
  case (Suc n)
  have al: "(p + 4) AND 3 = 0"
    using Suc.prems(1) by (rule aligned_add4)
  show ?case
  proof (cases "\<exists>j<n. a - (p + 4 + 4 * of_nat j) < 4")
    case True
    then obtain j where "j < n" and "a - (p + 4 + 4 * of_nat j) < 4"
      by blast
    then have "color_loop c n (p + 4) (store32 m p c) a = ucast (drop_bit (8 * unat (a AND 3)) c)"
      using Suc.IH [OF al] by blast
    then show ?thesis
      by simp
  next
    case False
    then have later: "color_loop c n (p + 4) (store32 m p c) a = store32 m p c a"
      by (intro color_loop_frame) blast
    have i0: "i = 0"
    proof (rule ccontr)
      assume "i \<noteq> 0"
      then obtain j where j: "i = Suc j"
        by (cases i) simp_all
      with Suc.prems(2,3) have "j < n" and "a - (p + 4 + 4 * of_nat j) < 4"
        by (simp_all add: algebra_simps)
      with False show False
        by blast
    qed
    with Suc.prems(3) have here: "a - p < 4"
      by simp
    have "a AND 3 = a - p"
      using Suc.prems(1) here by (rule aligned_offset)
    then show ?thesis
      using later here by (simp add: store32_def)
  qed
qed









subsection \<open>The TLS header\<close>












section \<open>The claims\<close>

text \<open>
  In the theorems below \<open>s\<close> is the state before the call and \<open>s'\<close> the state after it,
  \<open>stack_size\<close> is the requested size and \<open>S\<close> the effective size that
  \<open>tls_stack_size\<close> makes of it, and \<open>mm\<close> is the allocator.
\<close>

subsection \<open>C1: the recorded stack pointer and size\<close>

text \<open>
  C1. For every successful call with effective size \<open>S\<close> and allocation base \<open>B\<close>, where
  \<open>STACK_ALIGNMENT\<close> is a power of two (8 under EABI, else 4): the recorded stack pointer
  is \<open>B + S - 4\<close> rounded down to \<open>STACK_ALIGNMENT\<close>, both as the masked word and as the
  number \<open>x - x mod STACK_ALIGNMENT\<close>; the recorded size is that pointer minus \<open>B\<close> plus 4;
  and the pointer is a multiple of \<open>STACK_ALIGNMENT\<close>. Sums and differences are those of
  32-bit unsigned arithmetic.
\<close>

theorem stack_pointer_geometry:
  assumes "up_create_stack cfg mm s stack_size ttype = Inr (s', OK)"
    and "tls_stack_size cfg stack_size = Inr S"
    and "STACK_ALIGNMENT cfg = 2 ^ k" and "k < 32"
    and "B = stack_alloc_ptr (tcb s')"
  shows "adj_stack_ptr (tcb s') = (B + S - 4) AND NOT (STACK_ALIGNMENT cfg - 1)
       \<and> unat (adj_stack_ptr (tcb s'))
           = unat (B + S - 4) - unat (B + S - 4) mod unat (STACK_ALIGNMENT cfg)
       \<and> adj_stack_size (tcb s') = adj_stack_ptr (tcb s') - B + 4
       \<and> unat (STACK_ALIGNMENT cfg) dvd unat (adj_stack_ptr (tcb s'))"
proof -
  define t where "t = allocate cfg mm (release_old s S ttype) S ttype"
  from assms(1,2) have st: "setup_stack cfg t S = (s', OK)"
    by (simp add: up_create_stack_def create_with_size_def t_def)
  have B: "stack_alloc_ptr (tcb t) = B"
    using setup_stack_alloc_ptr [OF st] assms(5) by simp
  have p: "adj_stack_ptr (tcb s') = STACK_ALIGN_DOWN cfg (B + S - 4)"
    using setup_stack_geometry(1) [OF st] B by simp
  have z: "adj_stack_size (tcb s') = adj_stack_ptr (tcb s') - B + 4"
    using setup_stack_geometry(2) [OF st] B by simp
  have u: "unat (STACK_ALIGNMENT cfg) = 2 ^ k"
    using assms(3,4) by (simp add: unat_2p32)
  have n: "unat (adj_stack_ptr (tcb s')) = unat (B + S - 4) - unat (B + S - 4) mod 2 ^ k"
    using p STACK_ALIGN_DOWN_unat [OF assms(3)] by simp
  have d: "(2::nat) ^ k dvd unat (adj_stack_ptr (tcb s'))"
    unfolding n by (rule dvd_minus_mod)
  show ?thesis
    using p z n d u by (simp add: STACK_ALIGN_DOWN_def STACK_ALIGN_MASK_def)
qed

text \<open>
  The first scenario of the spec: 1024 bytes at \<open>0x20001000\<close> under EABI give the stack
  pointer \<open>0x200013F8\<close> and 1020 usable bytes.
\<close>

theorem stack_pointer_geometry_witness:
  "up_create_stack flat_eabi (\<lambda>c. 0x20001000) fresh 1024 TCB_FLAG_TTYPE_TASK
     = Inr (fst (create_with_size flat_eabi (\<lambda>c. 0x20001000) fresh 1024 TCB_FLAG_TTYPE_TASK), OK)
   \<and> tls_stack_size flat_eabi 1024 = Inr 1024
   \<and> STACK_ALIGNMENT flat_eabi = 2 ^ 3
   \<and> tcb (fst (create_with_size flat_eabi (\<lambda>c. 0x20001000) fresh 1024 TCB_FLAG_TTYPE_TASK))
     = \<lparr>stack_alloc_ptr = 0x20001000, adj_stack_size = 1020, adj_stack_ptr = 0x200013F8\<rparr>
   \<and> (8::nat) dvd unat (0x200013F8 :: 32 word)"
proof -
  let ?s' = "fst (create_with_size flat_eabi (\<lambda>c. 0x20001000) fresh 1024 TCB_FLAG_TTYPE_TASK)"
  have run: "up_create_stack flat_eabi (\<lambda>c. 0x20001000) fresh 1024 TCB_FLAG_TTYPE_TASK
      = Inr (?s', OK)"
    by (simp add: create_defs example_defs)
  have size: "tls_stack_size flat_eabi 1024 = Inr 1024"
    by (simp add: create_defs example_defs)
  have align: "STACK_ALIGNMENT flat_eabi = 2 ^ 3"
    by (simp add: create_defs example_defs)
  have fields: "tcb ?s'
      = \<lparr>stack_alloc_ptr = 0x20001000, adj_stack_size = 1020, adj_stack_ptr = 0x200013F8\<rparr>"
    by (simp add: create_defs example_defs)
  have k: "(3::nat) < 32"
    by simp
  have "unat (STACK_ALIGNMENT flat_eabi) dvd unat (adj_stack_ptr (tcb ?s'))"
    using stack_pointer_geometry [OF run size align k refl] by blast
  then have "(8::nat) dvd unat (0x200013F8 :: 32 word)"
    by (simp add: fields create_defs example_defs)
  with run size align fields show ?thesis
    by simp
qed

subsection \<open>C2: a failed allocation\<close>

text \<open>
  C2 as stated fails on a TCB that holds a stack of another size: the old stack is released
  before the allocation is tried (lines 157-162), so when the allocator then returns null
  the release has been called and \<open>stack_alloc_ptr\<close> has become null. Here the TCB holds
  the stack at \<open>0x20001000\<close> with 1020 usable bytes, 2048 bytes are requested and the
  allocator returns null.
\<close>

theorem failed_allocation_after_release:
  "outcome (up_create_stack flat_eabi (\<lambda>c. 0) attached 2048 TCB_FLAG_TTYPE_TASK)
     = Some (\<lparr>stack_alloc_ptr = 0, adj_stack_size = 1020, adj_stack_ptr = 0x200013F8\<rparr>,
             [Release TCB_FLAG_TTYPE_TASK, Alloc (Kumm_malloc 2048) 0], ERROR)
   \<and> tcb attached
     = \<lparr>stack_alloc_ptr = 0x20001000, adj_stack_size = 1020, adj_stack_ptr = 0x200013F8\<rparr>
   \<and> calls attached = []"
  by (simp add: outcome_def create_defs example_defs)

text \<open>
  C2, amended. For every call that allocates and in which the allocator returns null, the
  call returns \<open>ERROR\<close> and memory is unchanged. If the TCB holds no stack at entry, no field
  of the TCB changes and \<open>up_release_stack\<close> is not called. If it holds a stack whose
  recorded size differs from the effective size, \<open>up_release_stack\<close> is the first call made
  and the TCB returns without a stack.
\<close>

theorem failed_allocation:
  assumes "tls_stack_size cfg stack_size = Inr S"
    and "stack_alloc_ptr (tcb s) = 0 \<or> adj_stack_size (tcb s) \<noteq> S"
    and "mm (alloc_request cfg S ttype) = 0"
  shows "\<exists>s'. up_create_stack cfg mm s stack_size ttype = Inr (s', ERROR)
           \<and> mem s' = mem s
           \<and> (stack_alloc_ptr (tcb s) = 0 \<longrightarrow>
                 tcb s' = tcb s \<and> \<not> list_ex is_release (new_calls s s'))
           \<and> (stack_alloc_ptr (tcb s) \<noteq> 0 \<longrightarrow>
                 stack_alloc_ptr (tcb s') = 0 \<and> hd (new_calls s s') = Release ttype)"
proof -
  obtain s' r where run: "create_with_size cfg mm s S ttype = (s', r)"
    by (cases "create_with_size cfg mm s S ttype")
  have ptr: "stack_alloc_ptr (tcb s') = 0"
    using create_alloc_ptr [OF run] assms(2,3) by simp
  then have r: "r = ERROR"
    using create_status [OF run] by (cases r) simp_all
  note run' = run [unfolded r]
  have new: "new_calls s s' = release_calls s S ttype @ alloc_calls cfg mm s S ttype"
    using create_new_calls [OF run'] by simp
  have keep: "tcb s' = tcb s" if "stack_alloc_ptr (tcb s) = 0"
    using that ptr create_mem_ERROR(2,3) [OF run'] by (simp add: tcb_s.equality)
  have norel: "\<not> list_ex is_release (new_calls s s')" if "stack_alloc_ptr (tcb s) = 0"
    using that by (simp add: new release_calls_def alloc_calls_def)
  have rel: "hd (new_calls s s') = Release ttype" if "stack_alloc_ptr (tcb s) \<noteq> 0"
    using that assms(2) by (simp add: new release_calls_def)
  show ?thesis
    using up_create_stack_eq [OF assms(1), of mm s ttype] run' create_mem_ERROR(1) [OF run']
      keep norel rel ptr
    by auto
qed

text \<open>A TCB without a stack, 1024 bytes requested, the allocator returns null.\<close>

theorem failed_allocation_witness:
  "tls_stack_size flat_eabi 1024 = Inr 1024
   \<and> stack_alloc_ptr (tcb fresh) = 0
   \<and> (\<exists>s'. up_create_stack flat_eabi (\<lambda>c. 0) fresh 1024 TCB_FLAG_TTYPE_TASK = Inr (s', ERROR)
          \<and> mem s' = mem fresh \<and> tcb s' = tcb fresh
          \<and> \<not> list_ex is_release (new_calls fresh s'))"
proof -
  have size: "tls_stack_size flat_eabi 1024 = Inr 1024"
    by (simp add: create_defs example_defs)
  have none: "stack_alloc_ptr (tcb fresh) = 0"
    by (simp add: example_defs)
  have null: "(\<lambda>c. 0 :: 32 word) (alloc_request flat_eabi 1024 TCB_FLAG_TTYPE_TASK) = 0"
    by simp
  show ?thesis
    using failed_allocation [OF size disjI1 [OF none], of "\<lambda>c. 0" TCB_FLAG_TTYPE_TASK, OF null] size none
    by auto
qed

subsection \<open>C3: creating twice with the same size\<close>

text \<open>
  C3 as stated fails whenever rounding moves the stack pointer: the first call records the
  adjusted size, the second call compares it with the effective size, finds them different
  and releases the block (the comment at lines 152-155 says so). Under EABI, 1024 bytes at
  \<open>0x20001000\<close> are recorded as 1020; the second call releases and allocates again, here
  at \<open>0x20003000\<close>.
\<close>

theorem recreate_reallocates:
  "outcome (create_twice flat_eabi (\<lambda>c. 0x20001000) (\<lambda>c. 0x20003000) fresh 1024
      TCB_FLAG_TTYPE_TASK)
     = Some (\<lparr>stack_alloc_ptr = 0x20003000, adj_stack_size = 1020, adj_stack_ptr = 0x200033F8\<rparr>,
             [Alloc (Kumm_malloc 1024) 0x20001000, Board_autoled_on,
              Release TCB_FLAG_TTYPE_TASK, Alloc (Kumm_malloc 1024) 0x20003000,
              Board_autoled_on], OK)"
  by (simp add: outcome_def create_twice_def create_defs example_defs)

text \<open>
  C3, amended. After a successful call with effective size \<open>S\<close> that left the block at base
  \<open>B\<close>, where \<open>B + S - 4\<close> is already aligned to \<open>STACK_ALIGNMENT\<close> (so that the recorded
  size equals \<open>S\<close>), a second call with the same arguments returns \<open>OK\<close>, makes no call but
  the LED event (no release, no allocation) and leaves all three TCB fields, with
  \<open>stack_alloc_ptr\<close>, as they are.
\<close>

theorem recreate_keeps_block:
  assumes "up_create_stack cfg mm1 s stack_size ttype = Inr (s1, OK)"
    and "tls_stack_size cfg stack_size = Inr S"
    and "STACK_ALIGN_DOWN cfg (stack_alloc_ptr (tcb s1) + S - 4) = stack_alloc_ptr (tcb s1) + S - 4"
  shows "\<exists>s2. create_twice cfg mm1 mm2 s stack_size ttype = Inr (s2, OK)
           \<and> new_calls s1 s2 = [Board_autoled_on]
           \<and> tcb s2 = tcb s1"
proof -
  from assms(1,2) have run1: "create_with_size cfg mm1 s S ttype = (s1, OK)"
    by (simp add: up_create_stack_def)
  define t where "t = allocate cfg mm1 (release_old s S ttype) S ttype"
  have st: "setup_stack cfg t S = (s1, OK)"
    using run1 by (simp add: create_with_size_def t_def)
  have B: "stack_alloc_ptr (tcb t) = stack_alloc_ptr (tcb s1)"
    using setup_stack_alloc_ptr [OF st] by simp
  have ptr: "stack_alloc_ptr (tcb s1) \<noteq> 0"
    using create_status [OF run1] by simp
  have top: "adj_stack_ptr (tcb s1) = stack_alloc_ptr (tcb s1) + S - 4"
    using setup_stack_geometry(1) [OF st] B assms(3) by simp
  have size: "adj_stack_size (tcb s1) = S"
    using setup_stack_geometry(2) [OF st] B top by simp
  obtain s2 r where run2: "create_with_size cfg mm2 s1 S ttype = (s2, r)"
    by (cases "create_with_size cfg mm2 s1 S ttype")
  have same: "stack_alloc_ptr (tcb s2) = stack_alloc_ptr (tcb s1)"
    using create_alloc_ptr [OF run2] ptr size by simp
  then have r: "r = OK"
    using create_status [OF run2] ptr by simp
  have new: "new_calls s1 s2 = [Board_autoled_on]"
    using create_new_calls [OF run2] ptr size r
    by (simp add: release_calls_def alloc_calls_def)
  have st2: "setup_stack cfg s1 S = (s2, OK)"
    using run2 r create_keep [OF ptr size, of cfg mm2 ttype] by simp
  have "tcb s2 = tcb s1"
    using setup_stack_geometry [OF st2] same top size assms(3)
    by (simp add: tcb_s.equality)
  moreover have "create_twice cfg mm1 mm2 s stack_size ttype = Inr (s2, OK)"
    using assms(1,2) run2 r by (simp add: create_twice_def up_create_stack_def)
  ultimately show ?thesis
    using new by blast
qed

text \<open>Without EABI the alignment is 4, and 1024 bytes at \<open>0x20001000\<close> stay 1024.\<close>

theorem recreate_keeps_block_witness:
  "up_create_stack flat_oabi (\<lambda>c. 0x20001000) fresh 1024 TCB_FLAG_TTYPE_TASK
     = Inr (fst (create_with_size flat_oabi (\<lambda>c. 0x20001000) fresh 1024 TCB_FLAG_TTYPE_TASK), OK)
   \<and> tls_stack_size flat_oabi 1024 = Inr 1024
   \<and> STACK_ALIGN_DOWN flat_oabi (0x20001000 + 1024 - 4) = 0x20001000 + 1024 - 4
   \<and> (\<exists>s2. create_twice flat_oabi (\<lambda>c. 0x20001000) (\<lambda>c. 0x20003000) fresh 1024
              TCB_FLAG_TTYPE_TASK = Inr (s2, OK)
          \<and> tcb s2
            = \<lparr>stack_alloc_ptr = 0x20001000, adj_stack_size = 1024, adj_stack_ptr = 0x200013FC\<rparr>)"
proof -
  let ?s1 = "fst (create_with_size flat_oabi (\<lambda>c. 0x20001000) fresh 1024 TCB_FLAG_TTYPE_TASK)"
  have run: "up_create_stack flat_oabi (\<lambda>c. 0x20001000) fresh 1024 TCB_FLAG_TTYPE_TASK
      = Inr (?s1, OK)"
    by (simp add: create_defs example_defs)
  have size: "tls_stack_size flat_oabi 1024 = Inr 1024"
    by (simp add: create_defs example_defs)
  have fields: "tcb ?s1
      = \<lparr>stack_alloc_ptr = 0x20001000, adj_stack_size = 1024, adj_stack_ptr = 0x200013FC\<rparr>"
    by (simp add: create_defs example_defs)
  have aligned: "STACK_ALIGN_DOWN flat_oabi (stack_alloc_ptr (tcb ?s1) + 1024 - 4)
      = stack_alloc_ptr (tcb ?s1) + 1024 - 4"
    by (simp add: fields) (simp add: create_defs example_defs)
  have aligned': "STACK_ALIGN_DOWN flat_oabi (0x20001000 + 1024 - 4) = 0x20001000 + 1024 - 4"
    by (simp add: create_defs example_defs)
  show ?thesis
    using recreate_keeps_block [OF run size aligned, of "\<lambda>c. 0x20003000"] run size aligned' fields
    by auto
qed

subsection \<open>C4: the bytes that \<open>up_stack_color\<close> writes\<close>

text \<open>
  C4. The claim is that \<open>up_stack_color\<close> writes only inside \<open>[base, base + nbytes)\<close>, and
  the comment at line 307 says the same. The code does so whenever \<open>base\<close> rounded up does
  not pass \<open>base + nbytes\<close> (\<open>up_stack_color_confined\<close> above), but not otherwise: for
  the base \<open>0x20001001\<close> and 2 bytes the end rounds down to \<open>0x20001000\<close>, below the base,
  the unsigned difference at line 311 wraps to \<open>0xFFFFFFFF\<close>, and \<open>0x3FFFFFFF\<close> words are
  written from \<open>0x20001004\<close> on. The byte at \<open>0x20001004\<close>, outside the two bytes asked
  for, is overwritten.
\<close>

theorem color_escapes_region:
  "up_stack_color 0xdeadbeef 0x20001001 2 (\<lambda>a. 0) 0x20001004 = 0xef
   \<and> \<not> (0x20001004 :: 32 word) - 0x20001001 < 2"
proof -
  have stkptr: "((0x20001001 :: 32 word) + 3) AND NOT 3 = 0x20001004"
    by simp
  have nwords:
    "unat (drop_bit 2 ((((0x20001001 :: 32 word) + 2) AND NOT 3) - 0x20001001)) = 1073741823"
    by (simp add: mask_eq_exp_minus_1)
  have byte:
    "(ucast (drop_bit (8 * unat ((0x20001004 :: 32 word) AND 3)) (0xdeadbeef :: 32 word)) :: 8 word)
      = 0xef"
    by simp
  have "color_loop 0xdeadbeef 1073741823 0x20001004 (\<lambda>a. 0) 0x20001004
      = ucast (drop_bit (8 * unat ((0x20001004 :: 32 word) AND 3)) (0xdeadbeef :: 32 word))"
    by (rule color_loop_colored [where i = 0]) simp_all
  then have "up_stack_color 0xdeadbeef 0x20001001 2 (\<lambda>a. 0) 0x20001004 = 0xef"
    unfolding up_stack_color_def Let_def stkptr nwords byte .
  then show ?thesis
    by simp
qed

subsection \<open>C5: the stack pointer lies inside the block\<close>




subsection \<open>C6: the choice of the allocator\<close>

text \<open>
  C6. For every call that allocates, the allocation comes from the kernel heap exactly when
  the build has a kernel heap and the thread type is \<open>KERNEL\<close>, and from the user heap
  otherwise (thread types \<open>TASK\<close> and \<open>PTHREAD\<close>, or any thread type in a build without
  a kernel heap); with TLS the aligned allocator is called with alignment
  \<open>TLS_STACK_ALIGN\<close>, without TLS the unaligned one; the size asked for is the effective
  size. A call allocates exactly when the TCB holds no stack of the effective size.
\<close>

theorem heap_selection:
  assumes "up_create_stack cfg mm s stack_size ttype = Inr (s', r)"
    and "tls_stack_size cfg stack_size = Inr S"
    and "Alloc c p \<in> set (new_calls s s')"
  shows "heap_of c
           = (if HAVE_KERNEL_HEAP cfg \<and> ttype = TCB_FLAG_TTYPE_KERNEL
              then Kernel_heap else User_heap)
       \<and> alignment_of c = (if CONFIG_TLS cfg then Some (TLS_STACK_ALIGN cfg) else None)
       \<and> size_of c = S
       \<and> list_ex is_alloc (new_calls s s')
           = (stack_alloc_ptr (tcb s) = 0 \<or> adj_stack_size (tcb s) \<noteq> S)"
proof -
  from assms(1,2) have run: "create_with_size cfg mm s S ttype = (s', r)"
    by (simp add: up_create_stack_def)
  have c: "c = alloc_request cfg S ttype"
    using new_calls_Alloc(1) [OF run assms(3)] .
  show ?thesis
    unfolding c alloc_request_props new_calls_is_alloc [OF run] by simp
qed

text \<open>A kernel thread in a protected build with the kernel heap and TLS.\<close>

theorem heap_selection_witness:
  "up_create_stack (protected_eabi\<lparr>CONFIG_TLS := True\<rparr>) (\<lambda>c. 0x20002000) fresh 1024
      TCB_FLAG_TTYPE_KERNEL
     = Inr (fst (create_with_size (protected_eabi\<lparr>CONFIG_TLS := True\<rparr>) (\<lambda>c. 0x20002000) fresh
              1040 TCB_FLAG_TTYPE_KERNEL), OK)
   \<and> tls_stack_size (protected_eabi\<lparr>CONFIG_TLS := True\<rparr>) 1024 = Inr 1040
   \<and> new_calls fresh (fst (create_with_size (protected_eabi\<lparr>CONFIG_TLS := True\<rparr>)
         (\<lambda>c. 0x20002000) fresh 1040 TCB_FLAG_TTYPE_KERNEL))
     = [Alloc (Kmm_memalign 2048 1040) 0x20002000, Board_autoled_on]
   \<and> heap_of (Kmm_memalign 2048 1040) = Kernel_heap
   \<and> alignment_of (Kmm_memalign 2048 1040) = Some 2048"
proof -
  let ?cfg = "protected_eabi\<lparr>CONFIG_TLS := True\<rparr>"
  let ?s' = "fst (create_with_size ?cfg (\<lambda>c. 0x20002000) fresh 1040 TCB_FLAG_TTYPE_KERNEL)"
  have run: "up_create_stack ?cfg (\<lambda>c. 0x20002000) fresh 1024 TCB_FLAG_TTYPE_KERNEL
      = Inr (?s', OK)"
    by (simp add: create_defs example_defs)
  have size: "tls_stack_size ?cfg 1024 = Inr 1040"
    by (simp add: create_defs example_defs)
  have new: "new_calls fresh ?s' = [Alloc (Kmm_memalign 2048 1040) 0x20002000, Board_autoled_on]"
    by (simp add: new_calls_def create_defs example_defs)
  have ev: "Alloc (Kmm_memalign 2048 1040) 0x20002000 \<in> set (new_calls fresh ?s')"
    by (simp add: new)
  have kh: "HAVE_KERNEL_HEAP ?cfg"
    by (simp add: create_defs example_defs)
  have tls: "CONFIG_TLS ?cfg" "TLS_STACK_ALIGN ?cfg = 2048"
    by (simp_all add: example_defs)
  show ?thesis
    using heap_selection [OF run size ev] run size new kh tls by simp
qed

subsection \<open>C7: the effective size with TLS\<close>




subsection \<open>C8: the TLS header\<close>




subsection \<open>C9: a TCB that already holds a stack of the effective size\<close>



subsection \<open>C10: the status and the stack pointer of the TCB\<close>

text \<open>
  C10. For every call that returns, the status is \<open>OK\<close> exactly when
  \<open>stack_alloc_ptr\<close> is not null at return, and \<open>ERROR\<close> exactly when it is null; and
  \<open>ERROR\<close> is returned exactly when the TCB held no stack of the effective size at entry
  and the allocation failed.
\<close>

theorem status_iff_stack_attached:
  assumes "up_create_stack cfg mm s stack_size ttype = Inr (s', r)"
    and "tls_stack_size cfg stack_size = Inr S"
  shows "(r = OK) = (stack_alloc_ptr (tcb s') \<noteq> 0)
       \<and> (r = ERROR) = (stack_alloc_ptr (tcb s') = 0)
       \<and> (r = ERROR)
           = ((stack_alloc_ptr (tcb s) = 0 \<or> adj_stack_size (tcb s) \<noteq> S)
              \<and> mm (alloc_request cfg S ttype) = 0)"
proof -
  from assms have run: "create_with_size cfg mm s S ttype = (s', r)"
    by (simp add: up_create_stack_def)
  have ok: "(r = OK) = (stack_alloc_ptr (tcb s') \<noteq> 0)"
    using create_status [OF run] .
  then have err: "(r = ERROR) = (stack_alloc_ptr (tcb s') = 0)"
    by (cases r) simp_all
  show ?thesis
    using ok err create_alloc_ptr [OF run] by auto
qed

text \<open>A TCB without a stack and an allocator that returns null.\<close>

theorem status_iff_stack_attached_witness:
  "up_create_stack flat_eabi (\<lambda>c. 0) fresh 1024 TCB_FLAG_TTYPE_TASK
     = Inr (fst (create_with_size flat_eabi (\<lambda>c. 0) fresh 1024 TCB_FLAG_TTYPE_TASK), ERROR)
   \<and> tls_stack_size flat_eabi 1024 = Inr 1024
   \<and> stack_alloc_ptr (tcb (fst (create_with_size flat_eabi (\<lambda>c. 0) fresh 1024
         TCB_FLAG_TTYPE_TASK))) = 0"
proof -
  let ?s' = "fst (create_with_size flat_eabi (\<lambda>c. 0) fresh 1024 TCB_FLAG_TTYPE_TASK)"
  have run: "up_create_stack flat_eabi (\<lambda>c. 0) fresh 1024 TCB_FLAG_TTYPE_TASK = Inr (?s', ERROR)"
    by (simp add: create_defs example_defs)
  have size: "tls_stack_size flat_eabi 1024 = Inr 1024"
    by (simp add: create_defs example_defs)
  show ?thesis
    using status_iff_stack_attached [OF run size] run size by simp
qed

end
